theory Spec2Isabelle
  imports Main "HOL-Library.Sublist"
begin

section \<open>Data model of \<^verbatim>\<open>render_api.py\<close>\<close>

text \<open>
  The registry \<^verbatim>\<open>jobs_status: Dict[str, Dict[str, Any]]\<close> is a dictionary of
  dictionaries. The values stored in a job's dictionary are Python strings and integers.
\<close>

datatype pyval = PyStr string | PyInt int

type_synonym pydict = "string \<rightharpoonup> pyval"

text \<open>
  A dict display \<^verbatim>\<open>{k1: v1, k2: v2, ...}\<close>: entries are stored left to right, so a
  later entry for the same key wins. \<^verbatim>\<open>d.update({...})\<close> overwrites the keys of
  the display in \<^verbatim>\<open>d\<close> and leaves every other key of \<^verbatim>\<open>d\<close> as it is.
\<close>

definition dict :: "('k \<times> 'v) list \<Rightarrow> ('k \<rightharpoonup> 'v)" where
  "dict kvs = map_of (rev kvs)"

definition dict_update :: "('k \<rightharpoonup> 'v) \<Rightarrow> ('k \<times> 'v) list \<Rightarrow> ('k \<rightharpoonup> 'v)" where
  "dict_update d kvs = d ++ dict kvs"

text \<open>\<^verbatim>\<open>d.get(k, default)\<close> never raises; \<^verbatim>\<open>d[k]\<close> raises \<^verbatim>\<open>KeyError\<close> on a missing key.\<close>

definition dict_get :: "('k \<rightharpoonup> 'v) \<Rightarrow> 'k \<Rightarrow> 'v \<Rightarrow> 'v" where
  "dict_get d k dflt = (case d k of None \<Rightarrow> dflt | Some v \<Rightarrow> v)"

text \<open>The exceptions the module's own code can raise, and \<^verbatim>\<open>str(e)\<close> of them.\<close>

datatype exn = KeyError string | Exception string

definition subscript :: "(string \<rightharpoonup> 'v) \<Rightarrow> string \<Rightarrow> exn + 'v" where
  "subscript d k = (case d k of None \<Rightarrow> Inl (KeyError k) | Some v \<Rightarrow> Inr v)"

fun str_exn :: "exn \<Rightarrow> string" where
  "str_exn (Exception msg) = msg"
| "str_exn (KeyError k) = CHR 0x27 # k @ [CHR 0x27]"

datatype HTTPException = HTTPException (status_code: int) (detail: string)

text \<open>
  \<^verbatim>\<open>class RenderRequest(BaseModel)\<close>, lines 56-59. The two URL fields hold the
  \<^verbatim>\<open>str(...)\<close> of the validated \<^verbatim>\<open>HttpUrl\<close>.
\<close>

record RenderRequest =
  req_video_url :: string
  req_audio_url :: string
  req_quality :: string



text \<open>Configuration read from the environment, lines 36-39.\<close>

record config =
  FFMPEG_THREADS :: int
  MAX_CONCURRENT_JOBS :: int
  TEMP_DIR :: string
  OUTPUT_DIR :: string

text \<open>The module's global state, lines 53-54.\<close>

record server_state =
  jobs_status :: "string \<rightharpoonup> pydict"
  active_jobs :: int

section \<open>Formatting integers\<close>

text \<open>Python's \<^verbatim>\<open>str(n)\<close> of an integer, used by the f-strings and \<^verbatim>\<open>str(FFMPEG_THREADS)\<close>.\<close>

function str_nat :: "nat \<Rightarrow> string" where
  "str_nat n =
     (if n < 10 then [''0123456789'' ! n]
      else str_nat (n div 10) @ [''0123456789'' ! (n mod 10)])"
  by pat_completeness auto
termination
  by (relation "measure id") auto

declare str_nat.simps [simp del]

definition str_int :: "int \<Rightarrow> string" where
  "str_int i = (if i < 0 then CHR ''-'' # str_nat (nat (- i)) else str_nat (nat i))"

section \<open>Submission: \<^verbatim>\<open>create_render_job\<close>\<close>

text \<open>
  Lines 104-136. The function has no \<^verbatim>\<open>await\<close>, so it runs without interleaving.
  Its inputs from the environment are \<^verbatim>\<open>uuid4\<close>, the value of
  \<^verbatim>\<open>str(uuid.uuid4())\<close>, and \<^verbatim>\<open>now\<close>, the value of
  \<^verbatim>\<open>datetime.now().isoformat()\<close>. It returns the raised \<^verbatim>\<open>HTTPException\<close> or the
  response dictionary together with the background task it scheduled
  (\<^verbatim>\<open>process_render_job\<close> with its two arguments), and the global state it leaves.
\<close>

definition create_render_job ::
  "config \<Rightarrow> string \<Rightarrow> string \<Rightarrow> RenderRequest \<Rightarrow> server_state
     \<Rightarrow> (HTTPException + pydict \<times> (string \<times> RenderRequest)) \<times> server_state" where
  "create_render_job cfg uuid4 now request s =
     (if active_jobs s \<ge> MAX_CONCURRENT_JOBS cfg then
        (Inl (HTTPException 429
                (''Maximum concurrent jobs ('' @ str_int (MAX_CONCURRENT_JOBS cfg)
                   @ '') reached. Try again later.'')), s)
      else
        let job_id = take 8 uuid4;
            s1 = s\<lparr>jobs_status := (jobs_status s)(job_id \<mapsto> dict
                   [(''job_id'', PyStr job_id),
                    (''status'', PyStr ''pending''),
                    (''progress'', PyInt 0),
                    (''message'', PyStr ''Job queued for processing''),
                    (''created_at'', PyStr now),
                    (''video_url'', PyStr (req_video_url request)),
                    (''audio_url'', PyStr (req_audio_url request)),
                    (''quality'', PyStr (req_quality request))])\<rparr>;
            s2 = s1\<lparr>active_jobs := active_jobs s1 + 1\<rparr>
        in (Inr (dict [(''job_id'', PyStr job_id),
                       (''status'', PyStr ''pending''),
                       (''message'', PyStr ''Job created successfully'')],
                 (job_id, request)), s2))"

section \<open>Paths\<close>

text \<open>
  A \<^verbatim>\<open>pathlib.Path\<close> is modelled by its string. \<^verbatim>\<open>d / name\<close> appends a component
  (an absolute right operand replaces the left one), and \<^verbatim>\<open>p.name\<close> is the final
  component: what follows the last slash. The paths the module builds end in a file
  name, never in a slash.
\<close>

definition path_join :: "string \<Rightarrow> string \<Rightarrow> string" where
  "path_join d f = (case f of CHR ''/'' # _ \<Rightarrow> f | _ \<Rightarrow> d @ ''/'' @ f)"

definition path_name :: "string \<Rightarrow> string" where
  "path_name p = rev (takeWhile (\<lambda>c. c \<noteq> CHR ''/'') (rev p))"

section \<open>Downloader: \<^verbatim>\<open>download_file_async\<close>\<close>

text \<open>\<^verbatim>\<open>sub in s\<close> on strings.\<close>

fun contains :: "string \<Rightarrow> string \<Rightarrow> bool" where
  "contains sub [] = (sub = [])"
| "contains sub (c # cs) = (prefix sub (c # cs) \<or> contains sub cs)"

text \<open>
  Lines 219-244. What the network and the file system did is the argument \<^verbatim>\<open>resp\<close>:
  \<^verbatim>\<open>Inl e\<close> when a statement of the \<^verbatim>\<open>try\<close> block raised an exception whose
  \<^verbatim>\<open>str\<close> is \<^verbatim>\<open>e\<close>, \<^verbatim>\<open>Inr content_type\<close> when the whole block ran, with the
  response's \<^verbatim>\<open>content-type\<close> header (the empty string when absent). Every exception
  of the block is caught and raised again as an \<^verbatim>\<open>Exception\<close> with the prefixed
  message.
\<close>

definition download_file_async ::
  "config \<Rightarrow> string + string \<Rightarrow> string \<Rightarrow> string \<Rightarrow> string \<Rightarrow> exn + string" where
  "download_file_async cfg resp url job_id file_type =
     (case resp of
        Inl e \<Rightarrow> Inl (Exception (''Failed to download '' @ file_type @ '': '' @ e))
      | Inr content_type \<Rightarrow>
          let extension =
                (if file_type = ''video'' then ''.mp4''
                 else if file_type = ''audio'' then
                   (if contains ''wav'' content_type \<or> suffix ''.wav'' url
                    then ''.wav'' else ''.mp3'')
                 else [])
          in Inr (path_join (TEMP_DIR cfg) (job_id @ ''_'' @ file_type @ extension)))"

section \<open>Encoder invoker: \<^verbatim>\<open>render_video\<close>\<close>

text \<open>Lines 251-255.\<close>

definition quality_settings :: "string \<rightharpoonup> string list" where
  "quality_settings = dict
     [(''high'', [''-crf'', ''18'', ''-preset'', ''medium'']),
      (''medium'', [''-crf'', ''23'', ''-preset'', ''fast'']),
      (''low'', [''-crf'', ''28'', ''-preset'', ''ultrafast''])]"

text \<open>
  Line 265, the part of the command that depends on the quality. The default argument
  \<^verbatim>\<open>quality_settings["medium"]\<close> is evaluated before \<^verbatim>\<open>get\<close> is called.
\<close>

definition quality_args :: "string \<Rightarrow> exn + string list" where
  "quality_args quality =
     (case subscript quality_settings ''medium'' of
        Inl e \<Rightarrow> Inl e
      | Inr dflt \<Rightarrow> Inr (dict_get quality_settings quality dflt))"

text \<open>Lines 258-268, the command line.\<close>

definition ffmpeg_cmd ::
  "config \<Rightarrow> string \<Rightarrow> string \<Rightarrow> string \<Rightarrow> string \<Rightarrow> exn + string list" where
  "ffmpeg_cmd cfg video_path audio_path output_file quality =
     (case quality_args quality of
        Inl e \<Rightarrow> Inl e
      | Inr args \<Rightarrow>
          Inr ([''ffmpeg'', ''-y'',
                ''-i'', video_path,
                ''-i'', audio_path,
                ''-c:v'', ''libx264'',
                ''-c:a'', ''aac'',
                ''-threads'', str_int (FFMPEG_THREADS cfg)]
               @ args
               @ [''-movflags'', ''+faststart'', output_file]))"

text \<open>
  What the subprocess did: its return code, its standard error decoded, and whether the
  output file exists afterwards.
\<close>

record proc_result =
  returncode :: int
  stderr :: string
  output_exists :: bool

text \<open>
  Lines 246-290. \<^verbatim>\<open>run\<close> is the environment: it maps a command line to its outcome.
  The exceptions are the two the function raises itself, at lines 284 and 287, and the
  \<^verbatim>\<open>KeyError\<close> of the subscript at line 265.
\<close>

definition render_video ::
  "config \<Rightarrow> (string list \<Rightarrow> proc_result) \<Rightarrow> string \<Rightarrow> string \<Rightarrow> string \<Rightarrow> string
     \<Rightarrow> exn + string" where
  "render_video cfg run video_path audio_path job_id quality =
     (let output_file = path_join (OUTPUT_DIR cfg) (''render_'' @ job_id @ ''.mp4'')
      in case ffmpeg_cmd cfg video_path audio_path output_file quality of
           Inl e \<Rightarrow> Inl e
         | Inr cmd \<Rightarrow>
             let process = run cmd in
             if returncode process \<noteq> 0 then
               Inl (Exception (''FFmpeg rendering failed: '' @ stderr process))
             else if \<not> output_exists process then
               Inl (Exception ''Output file was not created'')
             else Inr output_file)"

section \<open>Statements that act on the global state\<close>

text \<open>
  A statement takes the global state and returns its result, an exception or a value,
  together with the list of the global states it produced, one per write, in order. The
  state a statement leaves is the last state of that list, or the state it found when it
  wrote nothing.
\<close>

type_synonym 'a prog = "server_state \<Rightarrow> (exn + 'a) \<times> server_state list"

definition state_after :: "server_state \<Rightarrow> server_state list \<Rightarrow> server_state" where
  "state_after s tr = last (s # tr)"

definition returns :: "exn + 'a \<Rightarrow> 'a prog" where
  "returns r = (\<lambda>s. (r, []))"

text \<open>\<^verbatim>\<open>m; f\<close>: the second statement runs only if the first one did not raise.\<close>

definition seq :: "'a prog \<Rightarrow> ('a \<Rightarrow> 'b prog) \<Rightarrow> 'b prog" where
  "seq m f = (\<lambda>s.
     case m s of
       (Inl e, tr) \<Rightarrow> (Inl e, tr)
     | (Inr a, tr) \<Rightarrow> (case f a (state_after s tr) of (r, tr') \<Rightarrow> (r, tr @ tr')))"

text \<open>
  \<^verbatim>\<open>try: m  except Exception as e: h(e)\<close>. Both \<^verbatim>\<open>KeyError\<close> and \<^verbatim>\<open>Exception\<close>
  are caught; an exception raised by the handler propagates.
\<close>

definition try_except :: "'a prog \<Rightarrow> (exn \<Rightarrow> 'a prog) \<Rightarrow> 'a prog" where
  "try_except m h = (\<lambda>s.
     case m s of
       (Inl e, tr) \<Rightarrow> (case h e (state_after s tr) of (r, tr') \<Rightarrow> (r, tr @ tr'))
     | (Inr a, tr) \<Rightarrow> (Inr a, tr))"

text \<open>
  \<^verbatim>\<open>try: m  finally: fin\<close>. The \<^verbatim>\<open>finally\<close> block runs whether \<^verbatim>\<open>m\<close> raised
  or not; afterwards the exception of \<^verbatim>\<open>m\<close>, if any, propagates.
\<close>

definition try_finally :: "'a prog \<Rightarrow> unit prog \<Rightarrow> 'a prog" where
  "try_finally m fin = (\<lambda>s.
     case m s of
       (r, tr) \<Rightarrow>
         (case fin (state_after s tr) of
            (Inl e, tr') \<Rightarrow> (Inl e, tr @ tr')
          | (Inr _, tr') \<Rightarrow> (r, tr @ tr')))"

text \<open>\<^verbatim>\<open>jobs_status[job_id][key] = v\<close>.\<close>

definition set_item :: "string \<Rightarrow> string \<Rightarrow> pyval \<Rightarrow> unit prog" where
  "set_item job_id key v = (\<lambda>s.
     case subscript (jobs_status s) job_id of
       Inl e \<Rightarrow> (Inl e, [])
     | Inr job \<Rightarrow> (Inr (), [s\<lparr>jobs_status := (jobs_status s)(job_id \<mapsto> job(key \<mapsto> v))\<rparr>]))"

text \<open>\<^verbatim>\<open>jobs_status[job_id].update({...})\<close>.\<close>

definition update_job :: "string \<Rightarrow> (string \<times> pyval) list \<Rightarrow> unit prog" where
  "update_job job_id kvs = (\<lambda>s.
     case subscript (jobs_status s) job_id of
       Inl e \<Rightarrow> (Inl e, [])
     | Inr job \<Rightarrow>
         (Inr (), [s\<lparr>jobs_status := (jobs_status s)(job_id \<mapsto> dict_update job kvs)\<rparr>]))"

text \<open>\<^verbatim>\<open>active_jobs -= 1\<close>.\<close>

definition decrement_active_jobs :: "unit prog" where
  "decrement_active_jobs = (\<lambda>s. (Inr (), [s\<lparr>active_jobs := active_jobs s - 1\<rparr>]))"

text \<open>
  Lines 292-299. \<^verbatim>\<open>cleanup_temp_files\<close> catches what its body raises and touches
  only the file system, which is not part of the global state.
\<close>

definition cleanup_temp_files :: "string list \<Rightarrow> unit prog" where
  "cleanup_temp_files file_paths = returns (Inr ())"

section \<open>Job body: \<^verbatim>\<open>process_render_job\<close>\<close>

text \<open>
  What the environment does during one run of the job body: the outcome of the two
  downloads, the encoder subprocess, and the value of \<^verbatim>\<open>datetime.now().isoformat()\<close>
  when the terminal update is written.
\<close>

record job_env =
  video_response :: "string + string"
  audio_response :: "string + string"
  run_ffmpeg :: "string list \<Rightarrow> proc_result"
  finish_time :: string

text \<open>Lines 174-203, the \<^verbatim>\<open>try\<close> block.\<close>

definition try_block :: "config \<Rightarrow> job_env \<Rightarrow> string \<Rightarrow> RenderRequest \<Rightarrow> unit prog" where
  "try_block cfg env job_id request =
     seq (set_item job_id ''status'' (PyStr ''processing'')) (\<lambda>_.
     seq (set_item job_id ''message'' (PyStr ''Starting download'')) (\<lambda>_.
     seq (set_item job_id ''progress'' (PyInt 10)) (\<lambda>_.
     seq (returns (download_file_async cfg (video_response env)
                     (req_video_url request) job_id ''video'')) (\<lambda>video_path.
     seq (set_item job_id ''progress'' (PyInt 30)) (\<lambda>_.
     seq (returns (download_file_async cfg (audio_response env)
                     (req_audio_url request) job_id ''audio'')) (\<lambda>audio_path.
     seq (set_item job_id ''progress'' (PyInt 50)) (\<lambda>_.
     seq (set_item job_id ''message'' (PyStr ''Processing video'')) (\<lambda>_.
     seq (returns (render_video cfg (run_ffmpeg env) video_path audio_path job_id
                     (req_quality request))) (\<lambda>output_path.
     seq (set_item job_id ''progress'' (PyInt 90)) (\<lambda>_.
     seq (update_job job_id
            [(''status'', PyStr ''completed''),
             (''progress'', PyInt 100),
             (''message'', PyStr ''Rendering completed successfully''),
             (''completed_at'', PyStr (finish_time env)),
             (''output_file'', PyStr (path_name output_path))]) (\<lambda>_.
     cleanup_temp_files [video_path, audio_path])))))))))))"

text \<open>Lines 205-214, the \<^verbatim>\<open>except Exception as e\<close> block.\<close>

definition except_block :: "job_env \<Rightarrow> string \<Rightarrow> exn \<Rightarrow> unit prog" where
  "except_block env job_id e =
     (let error_msg = str_exn e in
      update_job job_id
        [(''status'', PyStr ''failed''),
         (''message'', PyStr (''Rendering failed: '' @ error_msg)),
         (''error'', PyStr error_msg),
         (''completed_at'', PyStr (finish_time env))])"

text \<open>Lines 169-217.\<close>

definition process_render_job ::
  "config \<Rightarrow> job_env \<Rightarrow> string \<Rightarrow> RenderRequest \<Rightarrow> unit prog" where
  "process_render_job cfg env job_id request =
     try_finally
       (try_except (try_block cfg env job_id request) (except_block env job_id))
       decrement_active_jobs"

section \<open>Observing a job\<close>

text \<open>
  \<^verbatim>\<open>jobs_status[job_id][key]\<close> as a status query reads it from a global state:
  \<^verbatim>\<open>None\<close> when the registry has no entry for the job or the entry has no such key.
\<close>

definition job_field :: "string \<Rightarrow> string \<Rightarrow> server_state \<Rightarrow> pyval option" where
  "job_field job_id key s =
     (case jobs_status s job_id of None \<Rightarrow> None | Some job \<Rightarrow> job key)"


section \<open>Concrete inputs\<close>

text \<open>The configuration with the defaults of lines 36-39.\<close>

definition default_config :: config where
  "default_config =
     \<lparr>FFMPEG_THREADS = 3, MAX_CONCURRENT_JOBS = 2,
      TEMP_DIR = ''/tmp/ffmpeg'', OUTPUT_DIR = ''/app/output''\<rparr>"

definition initial_state :: server_state where
  "initial_state = \<lparr>jobs_status = Map.empty, active_jobs = 0\<rparr>"

definition full_state :: server_state where
  "full_state = \<lparr>jobs_status = Map.empty, active_jobs = 2\<rparr>"

definition sample_request :: RenderRequest where
  "sample_request =
     \<lparr>req_video_url = ''http://media.test/clip.mp4'',
      req_audio_url = ''http://media.test/track.wav'',
      req_quality = ''low''\<rparr>"

definition other_request :: RenderRequest where
  "other_request =
     \<lparr>req_video_url = ''http://media.test/second.mp4'',
      req_audio_url = ''http://media.test/second.mp3'',
      req_quality = ''high''\<rparr>"


text \<open>An environment in which both downloads and the encoder succeed.\<close>

definition env_success :: job_env where
  "env_success =
     \<lparr>video_response = Inr ''video/mp4'',
      audio_response = Inr ''audio/wav'',
      run_ffmpeg = (\<lambda>cmd. \<lparr>returncode = 0, stderr = [], output_exists = True\<rparr>),
      finish_time = ''2024-01-01T00:00:09''\<rparr>"

text \<open>An environment in which the video download fails with an HTTP 404.\<close>

definition env_video_404 :: job_env where
  "env_video_404 =
     \<lparr>video_response = Inl ''404 Client Error: Not Found'',
      audio_response = Inr ''audio/wav'',
      run_ffmpeg = (\<lambda>cmd. \<lparr>returncode = 0, stderr = [], output_exists = True\<rparr>),
      finish_time = ''2024-01-01T00:00:02''\<rparr>"


text \<open>A first submission to a fresh server, and what it returns and leaves.\<close>

definition sample_uuid :: string where
  "sample_uuid = ''1b4e28ba-2fa1-41d2-883f-0016d3cca427''"

definition sample_response :: pydict where
  "sample_response = dict
     [(''job_id'', PyStr ''1b4e28ba''),
      (''status'', PyStr ''pending''),
      (''message'', PyStr ''Job created successfully'')]"

definition submitted_state :: server_state where
  "submitted_state =
     \<lparr>jobs_status = [''1b4e28ba'' \<mapsto> dict
        [(''job_id'', PyStr ''1b4e28ba''),
         (''status'', PyStr ''pending''),
         (''progress'', PyInt 0),
         (''message'', PyStr ''Job queued for processing''),
         (''created_at'', PyStr ''2024-01-01T00:00:00''),
         (''video_url'', PyStr ''http://media.test/clip.mp4''),
         (''audio_url'', PyStr ''http://media.test/track.wav''),
         (''quality'', PyStr ''low'')]],
      active_jobs = 1\<rparr>"

text \<open>A second submission arrives before the body of the first one starts.\<close>

definition other_uuid :: string where
  "other_uuid = ''9f0c2d71-5a3e-4c1b-9d2a-7e8f00112233''"

definition busy_state :: server_state where
  "busy_state =
     snd (create_render_job default_config other_uuid ''2024-01-01T00:00:01''
            other_request submitted_state)"

text \<open>
  Another version-4 UUID string: it differs from \<^verbatim>\<open>sample_uuid\<close> and has the same
  first eight characters.
\<close>

definition colliding_uuid :: string where
  "colliding_uuid = ''1b4e28ba-77c4-4e0a-b1d9-3f5a6c7d8e9f''"

text \<open>The state the first job leaves when every step of its body succeeds.\<close>

definition finished_state :: server_state where
  "finished_state =
     state_after submitted_state
       (snd (process_render_job default_config env_success ''1b4e28ba'' sample_request
               submitted_state))"

section \<open>Admission control\<close>

text \<open>
  C1. A submission that arrives while \<^verbatim>\<open>active_jobs\<close> is at or above
  \<^verbatim>\<open>MAX_CONCURRENT_JOBS\<close> raises an \<^verbatim>\<open>HTTPException\<close> with status code 429, and the
  global state it leaves is the state it found: no registry entry is inserted and the
  in-flight counter is unchanged.
\<close>

theorem create_render_job_rejects_at_capacity:
  assumes "active_jobs s \<ge> MAX_CONCURRENT_JOBS cfg"
  shows "create_render_job cfg uuid4 now request s =
           (Inl (HTTPException 429
              (''Maximum concurrent jobs ('' @ str_int (MAX_CONCURRENT_JOBS cfg)
                 @ '') reached. Try again later.'')), s)
         \<and> jobs_status (snd (create_render_job cfg uuid4 now request s)) = jobs_status s
         \<and> active_jobs (snd (create_render_job cfg uuid4 now request s)) = active_jobs s"
  using assms by (simp add: create_render_job_def)

theorem create_render_job_rejects_at_capacity_witness:
  "MAX_CONCURRENT_JOBS default_config \<le> active_jobs full_state
   \<and> create_render_job default_config ''1b4e28ba-2fa1-41d2-883f-0016d3cca427''
         ''2024-01-01T00:00:00'' sample_request full_state =
       (Inl (HTTPException 429 ''Maximum concurrent jobs (2) reached. Try again later.''),
        full_state)"
proof -
  have h: "MAX_CONCURRENT_JOBS default_config \<le> active_jobs full_state"
    by (simp add: default_config_def full_state_def)
  have "str_int (MAX_CONCURRENT_JOBS default_config) = ''2''"
    by (simp add: default_config_def str_int_def str_nat.simps)
  with h create_render_job_rejects_at_capacity [OF h] show ?thesis
    by simp
qed


text \<open>
  C2. A submission that arrives while \<^verbatim>\<open>active_jobs\<close> is strictly below
  \<^verbatim>\<open>MAX_CONCURRENT_JOBS\<close> succeeds. The response carries the job identifier, the
  first eight characters of the UUID string; the registry holds a record under that
  identifier whose status is pending, whose progress is 0 and whose \<^verbatim>\<open>video_url\<close>,
  \<^verbatim>\<open>audio_url\<close> and \<^verbatim>\<open>quality\<close> are those of the request; the task scheduled is
  the job body for that identifier and request; and the in-flight counter is one more
  than before.
\<close>

theorem create_render_job_accepts_below_capacity:
  assumes "active_jobs s < MAX_CONCURRENT_JOBS cfg"
  shows "\<exists>resp s' job.
           create_render_job cfg uuid4 now request s = (Inr (resp, take 8 uuid4, request), s')
         \<and> resp ''job_id'' = Some (PyStr (take 8 uuid4))
         \<and> resp ''status'' = Some (PyStr ''pending'')
         \<and> jobs_status s' (take 8 uuid4) = Some job
         \<and> job ''job_id'' = Some (PyStr (take 8 uuid4))
         \<and> job ''status'' = Some (PyStr ''pending'')
         \<and> job ''progress'' = Some (PyInt 0)
         \<and> job ''video_url'' = Some (PyStr (req_video_url request))
         \<and> job ''audio_url'' = Some (PyStr (req_audio_url request))
         \<and> job ''quality'' = Some (PyStr (req_quality request))
         \<and> active_jobs s' = active_jobs s + 1"
  using assms by (simp add: create_render_job_def Let_def dict_def)

text \<open>The first submission to a server with the default configuration is accepted.\<close>

theorem create_render_job_accepts_below_capacity_witness:
  "active_jobs initial_state < MAX_CONCURRENT_JOBS default_config
   \<and> (\<exists>resp s' job.
         create_render_job default_config ''1b4e28ba-2fa1-41d2-883f-0016d3cca427''
           ''2024-01-01T00:00:00'' sample_request initial_state
           = (Inr (resp, ''1b4e28ba'', sample_request), s')
       \<and> resp ''job_id'' = Some (PyStr ''1b4e28ba'')
       \<and> jobs_status s' ''1b4e28ba'' = Some job
       \<and> job ''status'' = Some (PyStr ''pending'')
       \<and> job ''video_url'' = Some (PyStr ''http://media.test/clip.mp4'')
       \<and> job ''audio_url'' = Some (PyStr ''http://media.test/track.wav'')
       \<and> job ''quality'' = Some (PyStr ''low'')
       \<and> active_jobs s' = 1)"
proof -
  have h: "active_jobs initial_state < MAX_CONCURRENT_JOBS default_config"
    by (simp add: default_config_def initial_state_def)
  have t: "take 8 ''1b4e28ba-2fa1-41d2-883f-0016d3cca427'' = ''1b4e28ba''"
    by simp
  have r: "req_video_url sample_request = ''http://media.test/clip.mp4''"
    "req_audio_url sample_request = ''http://media.test/track.wav''"
    "req_quality sample_request = ''low''"
    by (simp_all add: sample_request_def)
  have a: "active_jobs initial_state + 1 = 1"
    by (simp add: initial_state_def)
  from create_render_job_accepts_below_capacity [OF h,
      of "''1b4e28ba-2fa1-41d2-883f-0016d3cca427''" "''2024-01-01T00:00:00''" sample_request]
  obtain resp s' job where
    "create_render_job default_config ''1b4e28ba-2fa1-41d2-883f-0016d3cca427''
           ''2024-01-01T00:00:00'' sample_request initial_state
           = (Inr (resp, ''1b4e28ba'', sample_request), s')"
    "resp ''job_id'' = Some (PyStr ''1b4e28ba'')"
    "jobs_status s' ''1b4e28ba'' = Some job"
    "job ''status'' = Some (PyStr ''pending'')"
    "job ''video_url'' = Some (PyStr ''http://media.test/clip.mp4'')"
    "job ''audio_url'' = Some (PyStr ''http://media.test/track.wav'')"
    "job ''quality'' = Some (PyStr ''low'')"
    "active_jobs s' = 1"
    unfolding t r a by blast
  with h show ?thesis by blast
qed

section \<open>Running the job body\<close>

subsection \<open>Statements one at a time\<close>

lemma seq_set_item:
  "jobs_status s jid = Some job \<Longrightarrow>
   seq (set_item jid k v) f s =
     (fst (f () (s\<lparr>jobs_status := (jobs_status s)(jid \<mapsto> job(k \<mapsto> v))\<rparr>)),
      s\<lparr>jobs_status := (jobs_status s)(jid \<mapsto> job(k \<mapsto> v))\<rparr>
        # snd (f () (s\<lparr>jobs_status := (jobs_status s)(jid \<mapsto> job(k \<mapsto> v))\<rparr>)))"
  by (simp add: seq_def set_item_def subscript_def state_after_def split: prod.splits)

lemma seq_update_job:
  "jobs_status s jid = Some job \<Longrightarrow>
   seq (update_job jid kvs) f s =
     (fst (f () (s\<lparr>jobs_status := (jobs_status s)(jid \<mapsto> dict_update job kvs)\<rparr>)),
      s\<lparr>jobs_status := (jobs_status s)(jid \<mapsto> dict_update job kvs)\<rparr>
        # snd (f () (s\<lparr>jobs_status := (jobs_status s)(jid \<mapsto> dict_update job kvs)\<rparr>)))"
  by (simp add: seq_def update_job_def subscript_def state_after_def split: prod.splits)

lemma seq_set_item_absent:
  "jobs_status s jid = None \<Longrightarrow> seq (set_item jid k v) f s = (Inl (KeyError jid), [])"
  by (simp add: seq_def set_item_def subscript_def)

lemma seq_returns_Inr: "seq (returns (Inr a)) f s = f a s"
  by (simp add: seq_def returns_def state_after_def split: prod.splits)

lemma seq_returns_Inl: "seq (returns (Inl e)) f s = (Inl e, [])"
  by (simp add: seq_def returns_def)

lemma cleanup_temp_files_result: "cleanup_temp_files ps s = (Inr (), [])"
  by (simp add: cleanup_temp_files_def returns_def)

lemma update_job_present:
  "jobs_status s jid = Some job \<Longrightarrow>
   update_job jid kvs s =
     (Inr (), [s\<lparr>jobs_status := (jobs_status s)(jid \<mapsto> dict_update job kvs)\<rparr>])"
  by (simp add: update_job_def subscript_def)

lemma update_job_absent:
  "jobs_status s jid = None \<Longrightarrow> update_job jid kvs s = (Inl (KeyError jid), [])"
  by (simp add: update_job_def subscript_def)

text \<open>\<^verbatim>\<open>update\<close> stores the entries of the display one after the other.\<close>

lemma dict_update_Nil: "dict_update d [] = d"
  by (simp add: dict_update_def dict_def)

lemma dict_update_Cons: "dict_update d ((k, v) # kvs) = dict_update (d(k \<mapsto> v)) kvs"
  by (simp add: dict_update_def dict_def)

subsection \<open>What the callees can raise\<close>

lemma download_file_async_raises:
  assumes "download_file_async cfg resp url jid file_type = Inl e"
  shows "\<exists>msg. e = Exception msg \<and> msg \<noteq> []"
  using assms by (auto simp add: download_file_async_def Let_def split: sum.splits)

lemma quality_settings_medium:
  "subscript quality_settings ''medium'' = Inr [''-crf'', ''23'', ''-preset'', ''fast'']"
  by (simp add: subscript_def quality_settings_def dict_def)

lemma quality_args_eq:
  "quality_args q =
     Inr (if q = ''high'' then [''-crf'', ''18'', ''-preset'', ''medium'']
          else if q = ''low'' then [''-crf'', ''28'', ''-preset'', ''ultrafast'']
          else [''-crf'', ''23'', ''-preset'', ''fast''])"
  unfolding quality_args_def quality_settings_medium
  by (simp add: dict_get_def quality_settings_def dict_def)

lemma render_video_raises:
  assumes "render_video cfg run vp ap jid q = Inl e"
  shows "\<exists>msg. e = Exception msg \<and> msg \<noteq> []"
  using assms
  by (auto simp add: render_video_def ffmpeg_cmd_def quality_args_eq Let_def split: if_splits)

lemma path_name_mp4: "path_name (p @ ''.mp4'') \<noteq> []"
  by (simp add: path_name_def)

lemma render_video_returns:
  assumes "render_video cfg run vp ap jid q = Inr out"
  shows "out = OUTPUT_DIR cfg @ ''/render_'' @ jid @ ''.mp4''"
  using assms
  by (auto simp add: render_video_def ffmpeg_cmd_def quality_args_eq Let_def path_join_def
      split: if_splits)

lemma render_video_output_name:
  assumes "render_video cfg run vp ap jid q = Inr out"
  shows "path_name out \<noteq> []"
proof -
  have "out = (OUTPUT_DIR cfg @ ''/render_'' @ jid) @ ''.mp4''"
    using render_video_returns [OF assms] by simp
  then show ?thesis
    using path_name_mp4 by metis
qed

subsection \<open>The \<^verbatim>\<open>try\<close> block, outcome by outcome\<close>

lemma try_block_absent:
  "jobs_status s jid = None \<Longrightarrow> try_block cfg env jid req s = (Inl (KeyError jid), [])"
  by (simp add: try_block_def seq_set_item_absent)

lemma try_block_video_fails:
  assumes "jobs_status s jid = Some job"
      and "download_file_async cfg (video_response env) (req_video_url req) jid ''video'' = Inl e"
  shows "try_block cfg env jid req s =
     (Inl e, map (\<lambda>j. s\<lparr>jobs_status := (jobs_status s)(jid \<mapsto> j)\<rparr>)
        [job(''status'' \<mapsto> PyStr ''processing''),
         job(''status'' \<mapsto> PyStr ''processing'', ''message'' \<mapsto> PyStr ''Starting download''),
         job(''status'' \<mapsto> PyStr ''processing'', ''message'' \<mapsto> PyStr ''Starting download'',
             ''progress'' \<mapsto> PyInt 10)])"
  using assms by (simp add: try_block_def seq_set_item seq_returns_Inl)

lemma try_block_audio_fails:
  assumes "jobs_status s jid = Some job"
      and "download_file_async cfg (video_response env) (req_video_url req) jid ''video'' = Inr vp"
      and "download_file_async cfg (audio_response env) (req_audio_url req) jid ''audio'' = Inl e"
  shows "try_block cfg env jid req s =
     (Inl e, map (\<lambda>j. s\<lparr>jobs_status := (jobs_status s)(jid \<mapsto> j)\<rparr>)
        [job(''status'' \<mapsto> PyStr ''processing''),
         job(''status'' \<mapsto> PyStr ''processing'', ''message'' \<mapsto> PyStr ''Starting download''),
         job(''status'' \<mapsto> PyStr ''processing'', ''message'' \<mapsto> PyStr ''Starting download'',
             ''progress'' \<mapsto> PyInt 10),
         job(''status'' \<mapsto> PyStr ''processing'', ''message'' \<mapsto> PyStr ''Starting download'',
             ''progress'' \<mapsto> PyInt 30)])"
  using assms by (simp add: try_block_def seq_set_item seq_returns_Inl seq_returns_Inr)

lemma try_block_render_fails:
  assumes "jobs_status s jid = Some job"
      and "download_file_async cfg (video_response env) (req_video_url req) jid ''video'' = Inr vp"
      and "download_file_async cfg (audio_response env) (req_audio_url req) jid ''audio'' = Inr ap"
      and "render_video cfg (run_ffmpeg env) vp ap jid (req_quality req) = Inl e"
  shows "try_block cfg env jid req s =
     (Inl e, map (\<lambda>j. s\<lparr>jobs_status := (jobs_status s)(jid \<mapsto> j)\<rparr>)
        [job(''status'' \<mapsto> PyStr ''processing''),
         job(''status'' \<mapsto> PyStr ''processing'', ''message'' \<mapsto> PyStr ''Starting download''),
         job(''status'' \<mapsto> PyStr ''processing'', ''message'' \<mapsto> PyStr ''Starting download'',
             ''progress'' \<mapsto> PyInt 10),
         job(''status'' \<mapsto> PyStr ''processing'', ''message'' \<mapsto> PyStr ''Starting download'',
             ''progress'' \<mapsto> PyInt 30),
         job(''status'' \<mapsto> PyStr ''processing'', ''message'' \<mapsto> PyStr ''Starting download'',
             ''progress'' \<mapsto> PyInt 50),
         job(''status'' \<mapsto> PyStr ''processing'', ''progress'' \<mapsto> PyInt 50,
             ''message'' \<mapsto> PyStr ''Processing video'')])"
  using assms by (simp add: try_block_def seq_set_item seq_returns_Inl seq_returns_Inr)

lemma try_block_succeeds:
  assumes "jobs_status s jid = Some job"
      and "download_file_async cfg (video_response env) (req_video_url req) jid ''video'' = Inr vp"
      and "download_file_async cfg (audio_response env) (req_audio_url req) jid ''audio'' = Inr ap"
      and "render_video cfg (run_ffmpeg env) vp ap jid (req_quality req) = Inr out"
  shows "try_block cfg env jid req s =
     (Inr (), map (\<lambda>j. s\<lparr>jobs_status := (jobs_status s)(jid \<mapsto> j)\<rparr>)
        [job(''status'' \<mapsto> PyStr ''processing''),
         job(''status'' \<mapsto> PyStr ''processing'', ''message'' \<mapsto> PyStr ''Starting download''),
         job(''status'' \<mapsto> PyStr ''processing'', ''message'' \<mapsto> PyStr ''Starting download'',
             ''progress'' \<mapsto> PyInt 10),
         job(''status'' \<mapsto> PyStr ''processing'', ''message'' \<mapsto> PyStr ''Starting download'',
             ''progress'' \<mapsto> PyInt 30),
         job(''status'' \<mapsto> PyStr ''processing'', ''message'' \<mapsto> PyStr ''Starting download'',
             ''progress'' \<mapsto> PyInt 50),
         job(''status'' \<mapsto> PyStr ''processing'', ''progress'' \<mapsto> PyInt 50,
             ''message'' \<mapsto> PyStr ''Processing video''),
         job(''status'' \<mapsto> PyStr ''processing'', ''message'' \<mapsto> PyStr ''Processing video'',
             ''progress'' \<mapsto> PyInt 90),
         dict_update
           (job(''status'' \<mapsto> PyStr ''processing'', ''message'' \<mapsto> PyStr ''Processing video'',
                ''progress'' \<mapsto> PyInt 90))
           [(''status'', PyStr ''completed''),
            (''progress'', PyInt 100),
            (''message'', PyStr ''Rendering completed successfully''),
            (''completed_at'', PyStr (finish_time env)),
            (''output_file'', PyStr (path_name out))]])"
  using assms
  by (simp add: try_block_def seq_set_item seq_returns_Inl seq_returns_Inr seq_update_job
      cleanup_temp_files_result)

subsection \<open>The whole body\<close>

lemma process_render_job_absent:
  "jobs_status s jid = None \<Longrightarrow>
   process_render_job cfg env jid req s =
     (Inl (KeyError jid), [s\<lparr>active_jobs := active_jobs s - 1\<rparr>])"
  by (simp add: process_render_job_def try_finally_def try_except_def try_block_absent
      except_block_def Let_def update_job_absent state_after_def decrement_active_jobs_def)

lemma process_render_job_after_raise:
  assumes "try_block cfg env jid req s = (Inl e, tr)"
      and "jobs_status (state_after s tr) jid = Some j"
  shows "process_render_job cfg env jid req s =
     (Inr (), tr @
        [(state_after s tr)\<lparr>jobs_status := (jobs_status (state_after s tr))(jid \<mapsto>
            dict_update j
              [(''status'', PyStr ''failed''),
               (''message'', PyStr (''Rendering failed: '' @ str_exn e)),
               (''error'', PyStr (str_exn e)),
               (''completed_at'', PyStr (finish_time env))])\<rparr>,
         (state_after s tr)\<lparr>jobs_status := (jobs_status (state_after s tr))(jid \<mapsto>
            dict_update j
              [(''status'', PyStr ''failed''),
               (''message'', PyStr (''Rendering failed: '' @ str_exn e)),
               (''error'', PyStr (str_exn e)),
               (''completed_at'', PyStr (finish_time env))]),
            active_jobs := active_jobs (state_after s tr) - 1\<rparr>])"
  using assms
  by (simp add: process_render_job_def try_finally_def try_except_def except_block_def Let_def
      update_job_present state_after_def decrement_active_jobs_def)

lemma process_render_job_after_return:
  assumes "try_block cfg env jid req s = (Inr (), tr)"
  shows "process_render_job cfg env jid req s =
     (Inr (), tr @ [(state_after s tr)\<lparr>active_jobs := active_jobs (state_after s tr) - 1\<rparr>])"
  using assms
  by (simp add: process_render_job_def try_finally_def try_except_def
      state_after_def decrement_active_jobs_def)

text \<open>
  When the registry holds a record for the job, a run of the body ends in one of four
  ways: the video download raised, the audio download raised, the encoder raised, or
  every step succeeded. In each case the body returns normally, and the states it wrote
  are these: one per write to the record, with the rest of the state untouched, and a
  last one for the decrement of the counter.
\<close>

lemma process_render_job_cases [consumes 1, case_names video_fails audio_fails render_fails succeeds]:
  assumes "jobs_status s jid = Some job"
  obtains
    msg j1 j2 j3 jf where
      "msg \<noteq> []"
      "j1 = job(''status'' \<mapsto> PyStr ''processing'')"
      "j2 = j1(''message'' \<mapsto> PyStr ''Starting download'')"
      "j3 = j2(''progress'' \<mapsto> PyInt 10)"
      "jf = dict_update j3
              [(''status'', PyStr ''failed''),
               (''message'', PyStr (''Rendering failed: '' @ msg)),
               (''error'', PyStr msg),
               (''completed_at'', PyStr (finish_time env))]"
      "try_block cfg env jid req s =
         (Inl (Exception msg),
          map (\<lambda>j. s\<lparr>jobs_status := (jobs_status s)(jid \<mapsto> j)\<rparr>) [j1, j2, j3])"
      "process_render_job cfg env jid req s =
         (Inr (),
          map (\<lambda>j. s\<lparr>jobs_status := (jobs_status s)(jid \<mapsto> j)\<rparr>) [j1, j2, j3, jf]
          @ [s\<lparr>jobs_status := (jobs_status s)(jid \<mapsto> jf), active_jobs := active_jobs s - 1\<rparr>])"
  | msg j1 j2 j3 j4 jf where
      "msg \<noteq> []"
      "j1 = job(''status'' \<mapsto> PyStr ''processing'')"
      "j2 = j1(''message'' \<mapsto> PyStr ''Starting download'')"
      "j3 = j2(''progress'' \<mapsto> PyInt 10)"
      "j4 = j3(''progress'' \<mapsto> PyInt 30)"
      "jf = dict_update j4
              [(''status'', PyStr ''failed''),
               (''message'', PyStr (''Rendering failed: '' @ msg)),
               (''error'', PyStr msg),
               (''completed_at'', PyStr (finish_time env))]"
      "try_block cfg env jid req s =
         (Inl (Exception msg),
          map (\<lambda>j. s\<lparr>jobs_status := (jobs_status s)(jid \<mapsto> j)\<rparr>) [j1, j2, j3, j4])"
      "process_render_job cfg env jid req s =
         (Inr (),
          map (\<lambda>j. s\<lparr>jobs_status := (jobs_status s)(jid \<mapsto> j)\<rparr>) [j1, j2, j3, j4, jf]
          @ [s\<lparr>jobs_status := (jobs_status s)(jid \<mapsto> jf), active_jobs := active_jobs s - 1\<rparr>])"
  | msg j1 j2 j3 j4 j5 j6 jf where
      "msg \<noteq> []"
      "j1 = job(''status'' \<mapsto> PyStr ''processing'')"
      "j2 = j1(''message'' \<mapsto> PyStr ''Starting download'')"
      "j3 = j2(''progress'' \<mapsto> PyInt 10)"
      "j4 = j3(''progress'' \<mapsto> PyInt 30)"
      "j5 = j4(''progress'' \<mapsto> PyInt 50)"
      "j6 = j5(''message'' \<mapsto> PyStr ''Processing video'')"
      "jf = dict_update j6
              [(''status'', PyStr ''failed''),
               (''message'', PyStr (''Rendering failed: '' @ msg)),
               (''error'', PyStr msg),
               (''completed_at'', PyStr (finish_time env))]"
      "try_block cfg env jid req s =
         (Inl (Exception msg),
          map (\<lambda>j. s\<lparr>jobs_status := (jobs_status s)(jid \<mapsto> j)\<rparr>) [j1, j2, j3, j4, j5, j6])"
      "process_render_job cfg env jid req s =
         (Inr (),
          map (\<lambda>j. s\<lparr>jobs_status := (jobs_status s)(jid \<mapsto> j)\<rparr>)
            [j1, j2, j3, j4, j5, j6, jf]
          @ [s\<lparr>jobs_status := (jobs_status s)(jid \<mapsto> jf), active_jobs := active_jobs s - 1\<rparr>])"
  | out j1 j2 j3 j4 j5 j6 j7 j8 where
      "path_name out \<noteq> []"
      "j1 = job(''status'' \<mapsto> PyStr ''processing'')"
      "j2 = j1(''message'' \<mapsto> PyStr ''Starting download'')"
      "j3 = j2(''progress'' \<mapsto> PyInt 10)"
      "j4 = j3(''progress'' \<mapsto> PyInt 30)"
      "j5 = j4(''progress'' \<mapsto> PyInt 50)"
      "j6 = j5(''message'' \<mapsto> PyStr ''Processing video'')"
      "j7 = j6(''progress'' \<mapsto> PyInt 90)"
      "j8 = dict_update j7
              [(''status'', PyStr ''completed''),
               (''progress'', PyInt 100),
               (''message'', PyStr ''Rendering completed successfully''),
               (''completed_at'', PyStr (finish_time env)),
               (''output_file'', PyStr (path_name out))]"
      "try_block cfg env jid req s =
         (Inr (),
          map (\<lambda>j. s\<lparr>jobs_status := (jobs_status s)(jid \<mapsto> j)\<rparr>)
            [j1, j2, j3, j4, j5, j6, j7, j8])"
      "process_render_job cfg env jid req s =
         (Inr (),
          map (\<lambda>j. s\<lparr>jobs_status := (jobs_status s)(jid \<mapsto> j)\<rparr>)
            [j1, j2, j3, j4, j5, j6, j7, j8]
          @ [s\<lparr>jobs_status := (jobs_status s)(jid \<mapsto> j8), active_jobs := active_jobs s - 1\<rparr>])"
proof (cases "download_file_async cfg (video_response env) (req_video_url req) jid ''video''")
  case (Inl e)
  from download_file_async_raises [OF Inl] obtain msg where e: "e = Exception msg" "msg \<noteq> []"
    by blast
  note tb = try_block_video_fails [OF assms Inl]
  have pr: "process_render_job cfg env jid req s =
         (Inr (),
          map (\<lambda>j. s\<lparr>jobs_status := (jobs_status s)(jid \<mapsto> j)\<rparr>)
            [job(''status'' \<mapsto> PyStr ''processing''),
             job(''status'' \<mapsto> PyStr ''processing'', ''message'' \<mapsto> PyStr ''Starting download''),
             job(''status'' \<mapsto> PyStr ''processing'', ''message'' \<mapsto> PyStr ''Starting download'',
                 ''progress'' \<mapsto> PyInt 10),
             dict_update (job(''status'' \<mapsto> PyStr ''processing'',
                 ''message'' \<mapsto> PyStr ''Starting download'', ''progress'' \<mapsto> PyInt 10))
              [(''status'', PyStr ''failed''),
               (''message'', PyStr (''Rendering failed: '' @ msg)),
               (''error'', PyStr msg),
               (''completed_at'', PyStr (finish_time env))]]
          @ [s\<lparr>jobs_status := (jobs_status s)(jid \<mapsto>
               dict_update (job(''status'' \<mapsto> PyStr ''processing'',
                 ''message'' \<mapsto> PyStr ''Starting download'', ''progress'' \<mapsto> PyInt 10))
              [(''status'', PyStr ''failed''),
               (''message'', PyStr (''Rendering failed: '' @ msg)),
               (''error'', PyStr msg),
               (''completed_at'', PyStr (finish_time env))]),
              active_jobs := active_jobs s - 1\<rparr>])"
    by (subst process_render_job_after_raise [OF tb]) (simp_all add: state_after_def e)
  show ?thesis
    by (rule that(1) [OF e(2) refl refl refl refl]) (simp_all add: tb pr e)
next
  case vp: (Inr vp)
  show ?thesis
  proof (cases "download_file_async cfg (audio_response env) (req_audio_url req) jid ''audio''")
    case (Inl e)
    from download_file_async_raises [OF Inl] obtain msg where e: "e = Exception msg" "msg \<noteq> []"
      by blast
    note tb = try_block_audio_fails [OF assms vp Inl]
    have pr: "process_render_job cfg env jid req s =
         (Inr (),
          map (\<lambda>j. s\<lparr>jobs_status := (jobs_status s)(jid \<mapsto> j)\<rparr>)
            [job(''status'' \<mapsto> PyStr ''processing''),
             job(''status'' \<mapsto> PyStr ''processing'', ''message'' \<mapsto> PyStr ''Starting download''),
             job(''status'' \<mapsto> PyStr ''processing'', ''message'' \<mapsto> PyStr ''Starting download'',
                 ''progress'' \<mapsto> PyInt 10),
             job(''status'' \<mapsto> PyStr ''processing'', ''message'' \<mapsto> PyStr ''Starting download'',
                 ''progress'' \<mapsto> PyInt 30),
             dict_update (job(''status'' \<mapsto> PyStr ''processing'',
                 ''message'' \<mapsto> PyStr ''Starting download'', ''progress'' \<mapsto> PyInt 30))
              [(''status'', PyStr ''failed''),
               (''message'', PyStr (''Rendering failed: '' @ msg)),
               (''error'', PyStr msg),
               (''completed_at'', PyStr (finish_time env))]]
          @ [s\<lparr>jobs_status := (jobs_status s)(jid \<mapsto>
               dict_update (job(''status'' \<mapsto> PyStr ''processing'',
                 ''message'' \<mapsto> PyStr ''Starting download'', ''progress'' \<mapsto> PyInt 30))
              [(''status'', PyStr ''failed''),
               (''message'', PyStr (''Rendering failed: '' @ msg)),
               (''error'', PyStr msg),
               (''completed_at'', PyStr (finish_time env))]),
              active_jobs := active_jobs s - 1\<rparr>])"
      by (subst process_render_job_after_raise [OF tb]) (simp_all add: state_after_def e)
    show ?thesis
      by (rule that(2) [OF e(2) refl refl refl refl refl]) (simp_all add: tb pr e)
  next
    case ap: (Inr ap)
    show ?thesis
    proof (cases "render_video cfg (run_ffmpeg env) vp ap jid (req_quality req)")
      case (Inl e)
      from render_video_raises [OF Inl] obtain msg where e: "e = Exception msg" "msg \<noteq> []"
        by blast
      note tb = try_block_render_fails [OF assms vp ap Inl]
      have pr: "process_render_job cfg env jid req s =
         (Inr (),
          map (\<lambda>j. s\<lparr>jobs_status := (jobs_status s)(jid \<mapsto> j)\<rparr>)
            [job(''status'' \<mapsto> PyStr ''processing''),
             job(''status'' \<mapsto> PyStr ''processing'', ''message'' \<mapsto> PyStr ''Starting download''),
             job(''status'' \<mapsto> PyStr ''processing'', ''message'' \<mapsto> PyStr ''Starting download'',
                 ''progress'' \<mapsto> PyInt 10),
             job(''status'' \<mapsto> PyStr ''processing'', ''message'' \<mapsto> PyStr ''Starting download'',
                 ''progress'' \<mapsto> PyInt 30),
             job(''status'' \<mapsto> PyStr ''processing'', ''message'' \<mapsto> PyStr ''Starting download'',
                 ''progress'' \<mapsto> PyInt 50),
             job(''status'' \<mapsto> PyStr ''processing'', ''progress'' \<mapsto> PyInt 50,
                 ''message'' \<mapsto> PyStr ''Processing video''),
             dict_update (job(''status'' \<mapsto> PyStr ''processing'', ''progress'' \<mapsto> PyInt 50,
                 ''message'' \<mapsto> PyStr ''Processing video''))
              [(''status'', PyStr ''failed''),
               (''message'', PyStr (''Rendering failed: '' @ msg)),
               (''error'', PyStr msg),
               (''completed_at'', PyStr (finish_time env))]]
          @ [s\<lparr>jobs_status := (jobs_status s)(jid \<mapsto>
               dict_update (job(''status'' \<mapsto> PyStr ''processing'', ''progress'' \<mapsto> PyInt 50,
                 ''message'' \<mapsto> PyStr ''Processing video''))
              [(''status'', PyStr ''failed''),
               (''message'', PyStr (''Rendering failed: '' @ msg)),
               (''error'', PyStr msg),
               (''completed_at'', PyStr (finish_time env))]),
              active_jobs := active_jobs s - 1\<rparr>])"
        by (subst process_render_job_after_raise [OF tb]) (simp_all add: state_after_def e)
      show ?thesis
        by (rule that(3) [OF e(2) refl refl refl refl refl refl refl]) (simp_all add: tb pr e)
    next
      case (Inr out)
      note tb = try_block_succeeds [OF assms vp ap Inr]
      note nm = render_video_output_name [OF Inr]
      show ?thesis
        by (rule that(4) [OF nm refl refl refl refl refl refl refl refl])
          (simp_all add: tb process_render_job_after_return [OF tb] state_after_def)
    qed
  qed
qed

section \<open>The lifecycle of a job\<close>

text \<open>
  A submission and a job body write no registry entry but the one of their own job
  identifier, and a submission whose identifier is new to the registry adds one entry.
\<close>

lemma create_render_job_other_entries:
  assumes "k \<noteq> take 8 uuid4"
  shows "jobs_status (snd (create_render_job cfg uuid4 now request s)) k = jobs_status s k"
  using assms by (simp add: create_render_job_def Let_def)

lemma process_render_job_other_entries:
  assumes "k \<noteq> job_id"
  shows "\<forall>st \<in> set (snd (process_render_job cfg env job_id request s)).
           jobs_status st k = jobs_status s k"
proof (cases "jobs_status s job_id")
  case None
  then show ?thesis
    by (simp add: process_render_job_absent)
next
  case (Some job)
  then show ?thesis
    using assms
    by (cases rule: process_render_job_cases [where cfg = cfg and env = env and req = request])
      simp_all
qed

lemma create_render_job_fresh_id:
  assumes "active_jobs s < MAX_CONCURRENT_JOBS cfg"
      and "take 8 uuid4 \<notin> dom (jobs_status s)"
  shows "dom (jobs_status (snd (create_render_job cfg uuid4 now request s)))
           = insert (take 8 uuid4) (dom (jobs_status s))
         \<and> (\<forall>k \<in> dom (jobs_status s).
               jobs_status (snd (create_render_job cfg uuid4 now request s)) k = jobs_status s k)"
  using assms by (auto simp add: create_render_job_def Let_def)


text \<open>
  A concrete lifecycle: the first submission to a fresh server is accepted, and a second
  submission with another identifier arrives before its body starts.
\<close>

lemma sample_submission:
  "create_render_job default_config sample_uuid ''2024-01-01T00:00:00'' sample_request initial_state
     = (Inr (sample_response, ''1b4e28ba'', sample_request), submitted_state)"
  by (simp add: create_render_job_def default_config_def initial_state_def sample_uuid_def
      sample_request_def sample_response_def submitted_state_def Let_def)

lemma busy_state_keeps_first_record:
  "jobs_status busy_state ''1b4e28ba'' = jobs_status submitted_state ''1b4e28ba''"
  by (simp add: busy_state_def create_render_job_def default_config_def submitted_state_def
      other_uuid_def Let_def)








text \<open>
  C7. Whatever the downloads and the encoder do, and whether or not the registry has an
  entry for the job, a run of the job body returns, and it writes the in-flight counter
  exactly once: every state it writes but the last has the counter it started with, and
  the last has that counter minus one.
\<close>

theorem counter_decremented_exactly_once:
  "map active_jobs (s # snd (process_render_job cfg env job_id request s))
     = replicate (length (snd (process_render_job cfg env job_id request s))) (active_jobs s)
       @ [active_jobs s - 1]"
proof (cases "jobs_status s job_id")
  case None
  then show ?thesis
    by (simp add: process_render_job_absent)
next
  case (Some job)
  then show ?thesis
    by (cases rule: process_render_job_cases [where cfg = cfg and env = env and req = request])
      simp_all
qed

text \<open>
  C10. When the \<^verbatim>\<open>try\<close> block of a job whose record exists raises, the body writes
  two more states: the failure record, and the decrement of the counter. Between the
  state in which the exception was raised and the failure record, the job's record
  differs in no key other than \<^verbatim>\<open>status\<close>, \<^verbatim>\<open>message\<close>, \<^verbatim>\<open>error\<close> and
  \<^verbatim>\<open>completed_at\<close>: its progress, creation timestamp, video URL, audio URL and
  quality are what they were. The other entries of the registry and the counter are
  what they were as well.
\<close>

theorem failure_update_changes_four_fields:
  assumes "jobs_status s job_id \<noteq> None"
      and "fst (try_block cfg env job_id request s) = Inl e"
  shows "\<exists>sf.
           process_render_job cfg env job_id request s =
             (Inr (), snd (try_block cfg env job_id request s)
                      @ [sf, sf\<lparr>active_jobs := active_jobs sf - 1\<rparr>])
         \<and> (\<forall>k. k \<notin> {''status'', ''message'', ''error'', ''completed_at''} \<longrightarrow>
               job_field job_id k sf
                 = job_field job_id k (state_after s (snd (try_block cfg env job_id request s))))
         \<and> (\<forall>k \<in> {''progress'', ''created_at'', ''video_url'', ''audio_url'', ''quality''}.
               job_field job_id k sf
                 = job_field job_id k (state_after s (snd (try_block cfg env job_id request s))))
         \<and> (\<forall>other. other \<noteq> job_id \<longrightarrow>
               jobs_status sf other
                 = jobs_status (state_after s (snd (try_block cfg env job_id request s))) other)
         \<and> active_jobs sf
             = active_jobs (state_after s (snd (try_block cfg env job_id request s)))
         \<and> job_field job_id ''status'' sf = Some (PyStr ''failed'')
         \<and> job_field job_id ''error'' sf = Some (PyStr (str_exn e))"
proof -
  from assms(1) obtain job where present: "jobs_status s job_id = Some job"
    by blast
  from present show ?thesis
  proof (cases rule: process_render_job_cases [where cfg = cfg and env = env and req = request])
    case (video_fails msg j1 j2 j3 jf)
    with assms(2) have e: "e = Exception msg"
      by simp
    show ?thesis
      by (rule exI [of _ "s\<lparr>jobs_status := (jobs_status s)(job_id \<mapsto> jf)\<rparr>"])
        (simp add: video_fails e job_field_def state_after_def dict_update_Cons dict_update_Nil)
  next
    case (audio_fails msg j1 j2 j3 j4 jf)
    with assms(2) have e: "e = Exception msg"
      by simp
    show ?thesis
      by (rule exI [of _ "s\<lparr>jobs_status := (jobs_status s)(job_id \<mapsto> jf)\<rparr>"])
        (simp add: audio_fails e job_field_def state_after_def dict_update_Cons dict_update_Nil)
  next
    case (render_fails msg j1 j2 j3 j4 j5 j6 jf)
    with assms(2) have e: "e = Exception msg"
      by simp
    show ?thesis
      by (rule exI [of _ "s\<lparr>jobs_status := (jobs_status s)(job_id \<mapsto> jf)\<rparr>"])
        (simp add: render_fails e job_field_def state_after_def dict_update_Cons dict_update_Nil)
  next
    case (succeeds out j1 j2 j3 j4 j5 j6 j7 j8)
    with assms(2) show ?thesis
      by simp
  qed
qed

text \<open>The lifecycle above with the video download failing at progress 10.\<close>

theorem failure_update_changes_four_fields_witness:
  "jobs_status busy_state ''1b4e28ba'' \<noteq> None
   \<and> fst (try_block default_config env_video_404 ''1b4e28ba'' sample_request busy_state)
       = Inl (Exception ''Failed to download video: 404 Client Error: Not Found'')
   \<and> (\<exists>sf. process_render_job default_config env_video_404 ''1b4e28ba'' sample_request
              busy_state
            = (Inr (),
               snd (try_block default_config env_video_404 ''1b4e28ba'' sample_request
                      busy_state)
               @ [sf, sf\<lparr>active_jobs := active_jobs sf - 1\<rparr>])
          \<and> job_field ''1b4e28ba'' ''progress'' sf = Some (PyInt 10)
          \<and> job_field ''1b4e28ba'' ''created_at'' sf = Some (PyStr ''2024-01-01T00:00:00'')
          \<and> job_field ''1b4e28ba'' ''video_url'' sf = Some (PyStr ''http://media.test/clip.mp4'')
          \<and> job_field ''1b4e28ba'' ''audio_url'' sf = Some (PyStr ''http://media.test/track.wav'')
          \<and> job_field ''1b4e28ba'' ''quality'' sf = Some (PyStr ''low'')
          \<and> job_field ''1b4e28ba'' ''status'' sf = Some (PyStr ''failed''))"
proof -
  let ?before = "state_after busy_state
                   (snd (try_block default_config env_video_404 ''1b4e28ba'' sample_request
                           busy_state))"
  have h1: "jobs_status busy_state ''1b4e28ba'' \<noteq> None"
    by (simp add: busy_state_keeps_first_record submitted_state_def)
  have h2: "fst (try_block default_config env_video_404 ''1b4e28ba'' sample_request busy_state)
       = Inl (Exception ''Failed to download video: 404 Client Error: Not Found'')"
    by code_simp
  have v: "job_field ''1b4e28ba'' ''progress'' ?before = Some (PyInt 10)"
    "job_field ''1b4e28ba'' ''created_at'' ?before = Some (PyStr ''2024-01-01T00:00:00'')"
    "job_field ''1b4e28ba'' ''video_url'' ?before = Some (PyStr ''http://media.test/clip.mp4'')"
    "job_field ''1b4e28ba'' ''audio_url'' ?before = Some (PyStr ''http://media.test/track.wav'')"
    "job_field ''1b4e28ba'' ''quality'' ?before = Some (PyStr ''low'')"
    by code_simp+
  from failure_update_changes_four_fields [OF h1 h2]
  obtain sf where
    p: "process_render_job default_config env_video_404 ''1b4e28ba'' sample_request busy_state
          = (Inr (),
             snd (try_block default_config env_video_404 ''1b4e28ba'' sample_request busy_state)
             @ [sf, sf\<lparr>active_jobs := active_jobs sf - 1\<rparr>])"
    and k: "\<forall>k. k \<notin> {''status'', ''message'', ''error'', ''completed_at''} \<longrightarrow>
               job_field ''1b4e28ba'' k sf = job_field ''1b4e28ba'' k ?before"
    and st: "job_field ''1b4e28ba'' ''status'' sf = Some (PyStr ''failed'')"
    by blast
  from k v have kept:
    "job_field ''1b4e28ba'' ''progress'' sf = Some (PyInt 10)"
    "job_field ''1b4e28ba'' ''created_at'' sf = Some (PyStr ''2024-01-01T00:00:00'')"
    "job_field ''1b4e28ba'' ''video_url'' sf = Some (PyStr ''http://media.test/clip.mp4'')"
    "job_field ''1b4e28ba'' ''audio_url'' sf = Some (PyStr ''http://media.test/track.wav'')"
    "job_field ''1b4e28ba'' ''quality'' sf = Some (PyStr ''low'')"
    by simp_all
  from p kept st
  have "\<exists>sf. process_render_job default_config env_video_404 ''1b4e28ba'' sample_request
              busy_state
            = (Inr (),
               snd (try_block default_config env_video_404 ''1b4e28ba'' sample_request
                      busy_state)
               @ [sf, sf\<lparr>active_jobs := active_jobs sf - 1\<rparr>])
          \<and> job_field ''1b4e28ba'' ''progress'' sf = Some (PyInt 10)
          \<and> job_field ''1b4e28ba'' ''created_at'' sf = Some (PyStr ''2024-01-01T00:00:00'')
          \<and> job_field ''1b4e28ba'' ''video_url'' sf = Some (PyStr ''http://media.test/clip.mp4'')
          \<and> job_field ''1b4e28ba'' ''audio_url'' sf = Some (PyStr ''http://media.test/track.wav'')
          \<and> job_field ''1b4e28ba'' ''quality'' sf = Some (PyStr ''low'')
          \<and> job_field ''1b4e28ba'' ''status'' sf = Some (PyStr ''failed'')"
    by blast
  with h1 h2 show ?thesis
    by blast
qed

section \<open>Job identifiers\<close>

text \<open>
  C8 fails on the code. The identifier is the first eight characters of the UUID string
  and \<^verbatim>\<open>create_render_job\<close> does not look whether the registry already has it. Here
  the first job has run to completion; a second submission, whose UUID differs and starts
  with the same eight characters, is accepted under the same identifier, and the completed
  record of the first job is replaced by the pending record of the second: the registry
  still has one entry.
\<close>

theorem job_id_collision:
  "sample_uuid \<noteq> colliding_uuid
   \<and> create_render_job default_config sample_uuid ''2024-01-01T00:00:00'' sample_request
         initial_state
       = (Inr (sample_response, ''1b4e28ba'', sample_request), submitted_state)
   \<and> job_field ''1b4e28ba'' ''status'' finished_state = Some (PyStr ''completed'')
   \<and> job_field ''1b4e28ba'' ''video_url'' finished_state
       = Some (PyStr ''http://media.test/clip.mp4'')
   \<and> fst (create_render_job default_config colliding_uuid ''2024-01-01T00:00:10''
            other_request finished_state)
       = Inr (sample_response, ''1b4e28ba'', other_request)
   \<and> job_field ''1b4e28ba'' ''status''
         (snd (create_render_job default_config colliding_uuid ''2024-01-01T00:00:10''
                 other_request finished_state))
       = Some (PyStr ''pending'')
   \<and> job_field ''1b4e28ba'' ''video_url''
         (snd (create_render_job default_config colliding_uuid ''2024-01-01T00:00:10''
                 other_request finished_state))
       = Some (PyStr ''http://media.test/second.mp4'')
   \<and> dom (jobs_status
         (snd (create_render_job default_config colliding_uuid ''2024-01-01T00:00:10''
                 other_request finished_state)))
       = {''1b4e28ba''}"
proof -
  have present: "jobs_status submitted_state ''1b4e28ba'' \<noteq> None"
    by (simp add: submitted_state_def)
  then obtain job where job: "jobs_status submitted_state ''1b4e28ba'' = Some job"
    by blast
  have fin: "active_jobs finished_state = 0 \<and> dom (jobs_status finished_state) = {''1b4e28ba''}"
    unfolding finished_state_def using job
    by (cases rule: process_render_job_cases [where cfg = default_config
          and env = env_success and req = sample_request])
      (simp_all add: state_after_def submitted_state_def)
  have a: "sample_uuid \<noteq> colliding_uuid"
    by (simp add: sample_uuid_def colliding_uuid_def)
  have c: "job_field ''1b4e28ba'' ''status'' finished_state = Some (PyStr ''completed'')"
    "job_field ''1b4e28ba'' ''video_url'' finished_state
       = Some (PyStr ''http://media.test/clip.mp4'')"
    by code_simp+
  have d: "fst (create_render_job default_config colliding_uuid ''2024-01-01T00:00:10''
            other_request finished_state)
       = Inr (sample_response, ''1b4e28ba'', other_request)"
    using fin
    by (simp add: create_render_job_def default_config_def colliding_uuid_def Let_def
        sample_response_def)
  have e: "job_field ''1b4e28ba'' ''status''
         (snd (create_render_job default_config colliding_uuid ''2024-01-01T00:00:10''
                 other_request finished_state))
       = Some (PyStr ''pending'')"
    "job_field ''1b4e28ba'' ''video_url''
         (snd (create_render_job default_config colliding_uuid ''2024-01-01T00:00:10''
                 other_request finished_state))
       = Some (PyStr ''http://media.test/second.mp4'')"
    by code_simp+
  have f: "dom (jobs_status
         (snd (create_render_job default_config colliding_uuid ''2024-01-01T00:00:10''
                 other_request finished_state)))
       = {''1b4e28ba''}"
    using fin
    by (simp add: create_render_job_def default_config_def colliding_uuid_def Let_def)
  from a sample_submission c d e f show ?thesis
    by blast
qed

section \<open>Quality tiers\<close>




text \<open>
  C9. The three tiers high, medium and low map to three different pairs of a
  \<^verbatim>\<open>-crf\<close> value and a \<^verbatim>\<open>-preset\<close> value; every other quality string gets the
  pair of medium; and the command line carries the chosen pair between the thread count
  and the \<^verbatim>\<open>-movflags\<close> option.
\<close>

theorem quality_tiers:
  "quality_args ''high'' = Inr [''-crf'', ''18'', ''-preset'', ''medium'']
   \<and> quality_args ''medium'' = Inr [''-crf'', ''23'', ''-preset'', ''fast'']
   \<and> quality_args ''low'' = Inr [''-crf'', ''28'', ''-preset'', ''ultrafast'']
   \<and> quality_args ''high'' \<noteq> quality_args ''medium''
   \<and> quality_args ''high'' \<noteq> quality_args ''low''
   \<and> quality_args ''medium'' \<noteq> quality_args ''low''
   \<and> (\<forall>q. q \<notin> {''high'', ''medium'', ''low''} \<longrightarrow> quality_args q = quality_args ''medium'')
   \<and> (\<forall>q. \<exists>args. quality_args q = Inr args
          \<and> ffmpeg_cmd cfg video_path audio_path output_file q =
              Inr ([''ffmpeg'', ''-y'', ''-i'', video_path, ''-i'', audio_path,
                    ''-c:v'', ''libx264'', ''-c:a'', ''aac'',
                    ''-threads'', str_int (FFMPEG_THREADS cfg)]
                   @ args @ [''-movflags'', ''+faststart'', output_file]))"
  by (simp add: quality_args_eq ffmpeg_cmd_def)

text \<open>A quality string that names no tier.\<close>

theorem quality_tiers_witness:
  "''ultra'' \<notin> {''high'', ''medium'', ''low''}
   \<and> quality_args ''ultra'' = Inr [''-crf'', ''23'', ''-preset'', ''fast'']
   \<and> ffmpeg_cmd default_config ''/tmp/ffmpeg/1b4e28ba_video.mp4''
        ''/tmp/ffmpeg/1b4e28ba_audio.wav'' ''/app/output/render_1b4e28ba.mp4'' ''ultra''
      = Inr [''ffmpeg'', ''-y'', ''-i'', ''/tmp/ffmpeg/1b4e28ba_video.mp4'',
             ''-i'', ''/tmp/ffmpeg/1b4e28ba_audio.wav'',
             ''-c:v'', ''libx264'', ''-c:a'', ''aac'', ''-threads'', ''3'',
             ''-crf'', ''23'', ''-preset'', ''fast'',
             ''-movflags'', ''+faststart'', ''/app/output/render_1b4e28ba.mp4'']"
proof -
  have h: "''ultra'' \<notin> {''high'', ''medium'', ''low''}"
    by simp
  have t: "str_int (FFMPEG_THREADS default_config) = ''3''"
    by (simp add: default_config_def str_int_def str_nat.simps)
  note q = quality_tiers [of default_config "''/tmp/ffmpeg/1b4e28ba_video.mp4''"
      "''/tmp/ffmpeg/1b4e28ba_audio.wav''" "''/app/output/render_1b4e28ba.mp4''"]
  from q h have a: "quality_args ''ultra'' = Inr [''-crf'', ''23'', ''-preset'', ''fast'']"
    by metis
  from q obtain args where
    "quality_args ''ultra'' = Inr args"
    "ffmpeg_cmd default_config ''/tmp/ffmpeg/1b4e28ba_video.mp4''
        ''/tmp/ffmpeg/1b4e28ba_audio.wav'' ''/app/output/render_1b4e28ba.mp4'' ''ultra'' =
       Inr ([''ffmpeg'', ''-y'', ''-i'', ''/tmp/ffmpeg/1b4e28ba_video.mp4'',
             ''-i'', ''/tmp/ffmpeg/1b4e28ba_audio.wav'',
             ''-c:v'', ''libx264'', ''-c:a'', ''aac'',
             ''-threads'', str_int (FFMPEG_THREADS default_config)]
            @ args @ [''-movflags'', ''+faststart'', ''/app/output/render_1b4e28ba.mp4''])"
    by blast
  with a t h show ?thesis by simp
qed

end
